theory Spec2Isabelle
  imports Main "HOL-Library.Word"
begin

section \<open>The contract PerformanceReviewFHE\<close>

text \<open>
  A shallow embedding of the Solidity contract \<open>PerformanceReviewFHE\<close> (pragma
  \<open>^0.8.24\<close>). Every public function is a function from the contract storage to
  \<open>error + storage\<close>: \<open>Inl\<close> is a revert (a failed \<open>require\<close>, a failed signature
  check, a refused decryption request, a failed decoding or an arithmetic or index panic),
  \<open>Inr\<close> the storage after the call. A reverted call leaves the storage and the event log as they were (\<open>transact\<close>).
  Arithmetic on \<open>uint32\<close> and \<open>uint256\<close> is the checked arithmetic of Solidity 0.8: the
  contract has no \<open>unchecked\<close> block, so an overflow or underflow is a panic.
\<close>

subsection \<open>Data\<close>

type_synonym uint256 = "256 word"
type_synonym uint32 = "32 word"

text \<open>An \<open>euint32\<close> is a ciphertext handle, a \<open>bytes32\<close> value (\<open>FHE.toBytes32\<close> reads it);
  the default value of a storage slot of this type is the zero handle.\<close>

type_synonym euint32 = "256 word"

record EncryptedReview =
  reviewId :: uint256
  encryptedPerformanceScore :: euint32
  encryptedReviewerGroup :: euint32
  encryptedRevieweeGroup :: euint32
  encryptedCalibrationScore :: euint32
  timestamp :: uint256

record EncryptedBiasModel =
  modelId :: uint256
  encryptedBiasThreshold :: euint32
  encryptedCalibrationRange :: euint32

record DecryptedAnalysis =
  biasScore :: uint32
  calibratedScore :: uint32
  isBiased :: bool
  isCalibrated :: bool

datatype event =
  ReviewSubmitted uint256 uint256
| AnalysisRequested uint256
| BiasDetected uint256 uint32
| ReviewCalibrated uint256

text \<open>The storage of the contract. A Solidity mapping is a total function: a key that was
  never written reads as the zero value of the value type. \<open>events\<close> is the log of the
  events emitted so far.\<close>

record contract =
  reviewCount :: uint256
  modelCount :: uint256
  performanceReviews :: "uint256 \<Rightarrow> EncryptedReview"
  biasModels :: "uint256 \<Rightarrow> EncryptedBiasModel"
  reviewAnalyses :: "uint256 \<Rightarrow> DecryptedAnalysis"
  encryptedGroupStats :: "uint256 \<Rightarrow> euint32"
  groupList :: "uint256 list"
  requestToReviewId :: "uint256 \<Rightarrow> uint256"
  events :: "event list"

text \<open>The reasons for which a call reverts. \<open>InvalidRequest\<close> is
  \<open>require(reviewId != 0, "Invalid request")\<close>, the rejection of a token that resolves to
  no subject; \<open>AlreadyCalibrated\<close> and \<open>GroupNotFound\<close> are the two other \<open>require\<close>
  messages; \<open>InvalidProof\<close> is the revert of \<open>FHE.checkSignatures\<close>; \<open>RequestReverted\<close>
  is a revert inside \<open>FHE.requestDecryption\<close>; \<open>DecodeFailure\<close> the revert of
  \<open>abi.decode\<close>; \<open>Panic_Arithmetic\<close> and \<open>Panic_Index\<close> are the panics 0x11 and 0x32 of
  checked arithmetic and of array indexing.\<close>

datatype error =
  InvalidRequest
| AlreadyCalibrated
| GroupNotFound
| InvalidProof
| RequestReverted
| DecodeFailure
| Panic_Arithmetic
| Panic_Index

text \<open>The library and the ABI decoder are outside the contract; they are parameters of the
  model. \<open>'b\<close> is the type of the \<open>bytes\<close> payload of a callback and \<open>'p\<close> the type of its
  proof. \<open>checkSignatures\<close> is \<open>True\<close> when \<open>FHE.checkSignatures\<close> returns and \<open>False\<close>
  when it reverts; a decoder returns \<open>None\<close> when \<open>abi.decode\<close> reverts.\<close>

record ('b, 'p) externals =
  asEuint32 :: "uint32 \<Rightarrow> euint32"
  isInitialized :: "euint32 \<Rightarrow> bool"
  checkSignatures :: "uint256 \<Rightarrow> 'b \<Rightarrow> 'p \<Rightarrow> bool"
  decodeUint32Array :: "'b \<Rightarrow> uint32 list option"
  decodeUint32 :: "'b \<Rightarrow> uint32 option"

subsection \<open>Reverts, checked arithmetic and array access\<close>

definition bindE :: "error + 'a \<Rightarrow> ('a \<Rightarrow> error + 'c) \<Rightarrow> error + 'c" where
  "bindE m f = (case m of Inl e \<Rightarrow> Inl e | Inr x \<Rightarrow> f x)"

definition decoded :: "'a option \<Rightarrow> error + 'a" where
  "decoded r = (case r of None \<Rightarrow> Inl DecodeFailure | Some x \<Rightarrow> Inr x)"

definition index :: "'a list \<Rightarrow> nat \<Rightarrow> error + 'a" where
  "index xs i = (if i < length xs then Inr (xs ! i) else Inl Panic_Index)"

definition checked_add32 :: "uint32 \<Rightarrow> uint32 \<Rightarrow> error + uint32" where
  "checked_add32 a b = (if unat a + unat b < 2 ^ 32 then Inr (a + b) else Inl Panic_Arithmetic)"

definition checked_sub32 :: "uint32 \<Rightarrow> uint32 \<Rightarrow> error + uint32" where
  "checked_sub32 a b = (if a < b then Inl Panic_Arithmetic else Inr (a - b))"

definition checked_add256 :: "uint256 \<Rightarrow> uint256 \<Rightarrow> error + uint256" where
  "checked_add256 a b = (if unat a + unat b < 2 ^ 256 then Inr (a + b) else Inl Panic_Arithmetic)"

text \<open>\<open>FHE.requestDecryption\<close> is a call into the library and the oracle. Its outcome is an
  input of the model: \<open>None\<close> when the call reverts (the library refuses the request, for
  example because the contract is not allowed to use one of the handles), \<open>Some reqId\<close>
  when it returns the token \<open>reqId\<close>.\<close>

definition requestDecryption :: "uint256 option \<Rightarrow> error + uint256" where
  "requestDecryption reply = (case reply of None \<Rightarrow> Inl RequestReverted | Some reqId \<Rightarrow> Inr reqId)"

text \<open>A transaction: a call that reverts changes nothing.\<close>

definition transact :: "(contract \<Rightarrow> error + contract) \<Rightarrow> contract \<Rightarrow> contract" where
  "transact f s = (case f s of Inl e \<Rightarrow> s | Inr s' \<Rightarrow> s')"

subsection \<open>The functions of the contract\<close>

text \<open>The storage of the freshly deployed contract: every slot is zero.\<close>

definition deployed :: contract where
  "deployed =
     \<lparr>reviewCount = 0, modelCount = 0,
      performanceReviews = (\<lambda>_. \<lparr>reviewId = 0, encryptedPerformanceScore = 0,
         encryptedReviewerGroup = 0, encryptedRevieweeGroup = 0,
         encryptedCalibrationScore = 0, timestamp = 0\<rparr>),
      biasModels = (\<lambda>_. \<lparr>modelId = 0, encryptedBiasThreshold = 0,
         encryptedCalibrationRange = 0\<rparr>),
      reviewAnalyses = (\<lambda>_. \<lparr>biasScore = 0, calibratedScore = 0, isBiased = False,
         isCalibrated = False\<rparr>),
      encryptedGroupStats = (\<lambda>_. 0),
      groupList = [],
      requestToReviewId = (\<lambda>_. 0),
      events = []\<rparr>"

text \<open>The functions \<open>calculateDepartmentStats\<close> and \<open>bytes32ToUint\<close> neither read nor
  write the storage and are left out.\<close>

text \<open>\<open>submitPerformanceReview\<close>; \<open>now\<close> is \<open>block.timestamp\<close>. The modifiers \<open>onlyManager\<close>
  and \<open>onlyHR\<close> have empty bodies.\<close>

definition submitPerformanceReview ::
  "('b, 'p) externals \<Rightarrow> euint32 \<Rightarrow> euint32 \<Rightarrow> euint32 \<Rightarrow> uint256 \<Rightarrow> contract \<Rightarrow> error + contract"
where
  "submitPerformanceReview X score reviewerGroup revieweeGroup now s =
     bindE (checked_add256 (reviewCount s) 1) (\<lambda>newId.
       Inr (s\<lparr>reviewCount := newId,
              performanceReviews := (performanceReviews s)(newId :=
                 \<lparr>reviewId = newId, encryptedPerformanceScore = score,
                  encryptedReviewerGroup = reviewerGroup,
                  encryptedRevieweeGroup = revieweeGroup,
                  encryptedCalibrationScore = asEuint32 X 0,
                  timestamp = now\<rparr>),
              reviewAnalyses := (reviewAnalyses s)(newId :=
                 \<lparr>biasScore = 0, calibratedScore = 0, isBiased = False,
                  isCalibrated = False\<rparr>),
              events := events s @ [ReviewSubmitted newId now]\<rparr>))"

definition addBiasModel :: "euint32 \<Rightarrow> euint32 \<Rightarrow> contract \<Rightarrow> error + contract" where
  "addBiasModel threshold calibrationRange s =
     bindE (checked_add256 (modelCount s) 1) (\<lambda>newId.
       Inr (s\<lparr>modelCount := newId,
              biasModels := (biasModels s)(newId :=
                 \<lparr>modelId = newId, encryptedBiasThreshold = threshold,
                  encryptedCalibrationRange = calibrationRange\<rparr>)\<rparr>))"

text \<open>\<open>requestBiasAnalysis\<close>; \<open>reply\<close> is the outcome of \<open>FHE.requestDecryption\<close>. The
  function reads the review and the model without checking that either exists, and
  \<open>ciphertexts\<close> is the array handed to the oracle.\<close>

definition requestBiasAnalysis ::
  "uint256 option \<Rightarrow> uint256 \<Rightarrow> uint256 \<Rightarrow> contract \<Rightarrow> error + contract"
where
  "requestBiasAnalysis reply rid mid s =
     (let review = performanceReviews s rid;
          model = biasModels s mid;
          ciphertexts = [encryptedPerformanceScore review, encryptedReviewerGroup review,
                         encryptedRevieweeGroup review, encryptedBiasThreshold model]
      in bindE (requestDecryption reply) (\<lambda>reqId.
           Inr (s\<lparr>requestToReviewId := (requestToReviewId s)(reqId := rid),
                  events := events s @ [AnalysisRequested rid]\<rparr>)))"

definition calculateGroupAverage :: "contract \<Rightarrow> uint32 \<Rightarrow> uint32" where
  "calculateGroupAverage s groupId = 75"

text \<open>\<open>abs\<close> of the contract, on \<open>uint32\<close>: the comparison \<open>x >= 0\<close> is one of unsigned
  values.\<close>

definition abs_uint32 :: "uint32 \<Rightarrow> uint32" where
  "abs_uint32 x = (if x \<ge> 0 then x else - x)"

definition analyzeBias ::
  "('b, 'p) externals \<Rightarrow> uint256 \<Rightarrow> 'b \<Rightarrow> 'p \<Rightarrow> contract \<Rightarrow> error + contract"
where
  "analyzeBias X requestId cleartexts prf s =
     (let rid = requestToReviewId s requestId in
      if rid = 0 then Inl InvalidRequest
      else if \<not> checkSignatures X requestId cleartexts prf then Inl InvalidProof
      else
        bindE (decoded (decodeUint32Array X cleartexts)) (\<lambda>results.
        bindE (index results 0) (\<lambda>performanceScore.
        bindE (index results 1) (\<lambda>reviewerGroup.
        bindE (index results 2) (\<lambda>revieweeGroup.
        bindE (index results 3) (\<lambda>biasThreshold.
        bindE (if reviewerGroup = revieweeGroup then Inr 0
               else bindE (checked_sub32 performanceScore (calculateGroupAverage s reviewerGroup))
                      (\<lambda>d. Inr (abs_uint32 d))) (\<lambda>bias.
        let biased = (bias > biasThreshold);
            s1 = s\<lparr>reviewAnalyses := (reviewAnalyses s)(rid :=
                     (reviewAnalyses s rid)\<lparr>biasScore := bias\<rparr>)\<rparr>;
            s2 = s1\<lparr>reviewAnalyses := (reviewAnalyses s1)(rid :=
                     (reviewAnalyses s1 rid)\<lparr>isBiased := biased\<rparr>)\<rparr>
        in Inr (if biased then s2\<lparr>events := events s2 @ [BiasDetected rid bias]\<rparr> else s2))))))))"

definition requestCalibration ::
  "('b, 'p) externals \<Rightarrow> uint256 option \<Rightarrow> uint256 \<Rightarrow> euint32 \<Rightarrow> contract \<Rightarrow> error + contract"
where
  "requestCalibration X reply rid encryptedAdjustment s =
     (let review = performanceReviews s rid in
      if \<not> (isInitialized X (encryptedCalibrationScore review) = False)
      then Inl AlreadyCalibrated
      else
        let ciphertexts = [encryptedPerformanceScore review, encryptedAdjustment]
        in bindE (requestDecryption reply) (\<lambda>reqId.
             Inr (s\<lparr>requestToReviewId := (requestToReviewId s)(reqId := rid)\<rparr>)))"

definition applyCalibration ::
  "('b, 'p) externals \<Rightarrow> uint256 \<Rightarrow> 'b \<Rightarrow> 'p \<Rightarrow> contract \<Rightarrow> error + contract"
where
  "applyCalibration X requestId cleartexts prf s =
     (let rid = requestToReviewId s requestId in
      if rid = 0 then Inl InvalidRequest
      else if \<not> checkSignatures X requestId cleartexts prf then Inl InvalidProof
      else
        bindE (decoded (decodeUint32Array X cleartexts)) (\<lambda>results.
        bindE (index results 0) (\<lambda>originalScore.
        bindE (index results 1) (\<lambda>adjustment.
        bindE (checked_add32 originalScore adjustment) (\<lambda>calibrated.
        let s1 = s\<lparr>performanceReviews := (performanceReviews s)(rid :=
                     (performanceReviews s rid)\<lparr>encryptedCalibrationScore :=
                        asEuint32 X calibrated\<rparr>)\<rparr>;
            s2 = s1\<lparr>reviewAnalyses := (reviewAnalyses s1)(rid :=
                     (reviewAnalyses s1 rid)\<lparr>calibratedScore := calibrated\<rparr>)\<rparr>;
            s3 = s2\<lparr>reviewAnalyses := (reviewAnalyses s2)(rid :=
                     (reviewAnalyses s2 rid)\<lparr>isCalibrated := True\<rparr>)\<rparr>
        in Inr (s3\<lparr>events := events s3 @ [ReviewCalibrated rid]\<rparr>))))))"

definition getReviewAnalysis :: "contract \<Rightarrow> uint256 \<Rightarrow> error + (uint32 \<times> uint32 \<times> bool \<times> bool)" where
  "getReviewAnalysis s rid =
     (let a = reviewAnalyses s rid
      in Inr (biasScore a, calibratedScore a, isBiased a, isCalibrated a))"

definition requestGroupStats ::
  "('b, 'p) externals \<Rightarrow> uint256 option \<Rightarrow> uint256 \<Rightarrow> contract \<Rightarrow> error + contract"
where
  "requestGroupStats X reply groupId s =
     (let stats = encryptedGroupStats s groupId in
      if \<not> isInitialized X stats then Inl GroupNotFound
      else
        let ciphertexts = [stats]
        in bindE (requestDecryption reply) (\<lambda>reqId.
             Inr (s\<lparr>requestToReviewId := (requestToReviewId s)(reqId := groupId)\<rparr>)))"

definition decryptGroupStats ::
  "('b, 'p) externals \<Rightarrow> uint256 \<Rightarrow> 'b \<Rightarrow> 'p \<Rightarrow> contract \<Rightarrow> error + contract"
where
  "decryptGroupStats X requestId cleartexts prf s =
     (let groupId = requestToReviewId s requestId in
      if \<not> checkSignatures X requestId cleartexts prf then Inl InvalidProof
      else bindE (decoded (decodeUint32 X cleartexts)) (\<lambda>stats. Inr s))"

subsection \<open>Histories of calls\<close>

text \<open>The state-changing calls that the contract can receive, and the storage after a
  sequence of them, each one a transaction.\<close>

datatype ('b, 'p) call =
  SubmitPerformanceReview euint32 euint32 euint32 uint256
| AddBiasModel euint32 euint32
| RequestBiasAnalysis "uint256 option" uint256 uint256
| AnalyzeBias uint256 'b 'p
| RequestCalibration "uint256 option" uint256 euint32
| ApplyCalibration uint256 'b 'p
| RequestGroupStats "uint256 option" uint256
| DecryptGroupStats uint256 'b 'p

fun perform :: "('b, 'p) externals \<Rightarrow> ('b, 'p) call \<Rightarrow> contract \<Rightarrow> error + contract" where
  "perform X (SubmitPerformanceReview a b c t) s = submitPerformanceReview X a b c t s"
| "perform X (AddBiasModel a b) s = addBiasModel a b s"
| "perform X (RequestBiasAnalysis q r m) s = requestBiasAnalysis q r m s"
| "perform X (AnalyzeBias q c p) s = analyzeBias X q c p s"
| "perform X (RequestCalibration q r a) s = requestCalibration X q r a s"
| "perform X (ApplyCalibration q c p) s = applyCalibration X q c p s"
| "perform X (RequestGroupStats q g) s = requestGroupStats X q g s"
| "perform X (DecryptGroupStats q c p) s = decryptGroupStats X q c p s"

fun run :: "('b, 'p) externals \<Rightarrow> ('b, 'p) call list \<Rightarrow> contract \<Rightarrow> contract" where
  "run X [] s = s"
| "run X (c # cs) s = run X cs (transact (perform X c) s)"

text \<open>The tokens that the contract has registered in a history: the token of each request
  that did not revert.\<close>

fun requested :: "('b, 'p) call \<Rightarrow> uint256 list" where
  "requested (RequestBiasAnalysis (Some q) r m) = [q]"
| "requested (RequestCalibration (Some q) r a) = [q]"
| "requested (RequestGroupStats (Some q) g) = [q]"
| "requested c = []"

fun issued :: "('b, 'p) externals \<Rightarrow> ('b, 'p) call list \<Rightarrow> contract \<Rightarrow> uint256 list" where
  "issued X [] s = []"
| "issued X (c # cs) s =
     (case perform X c s of
        Inl e \<Rightarrow> issued X cs s
      | Inr s' \<Rightarrow> requested c @ issued X cs s')"





text \<open>An instance of the external parameters for evaluating the contract on concrete
  inputs: the payload of a callback is the decoded array itself, its proof is the outcome
  of the signature check, a handle is initialized when it is not the zero handle, and the
  trivial encryption of a value is the value as a handle.\<close>

definition plainExternals :: "(uint32 list, bool) externals" where
  "plainExternals =
     \<lparr>asEuint32 = (\<lambda>v. ucast v),
      isInitialized = (\<lambda>h. h \<noteq> 0),
      checkSignatures = (\<lambda>q c p. p),
      decodeUint32Array = (\<lambda>c. Some c),
      decodeUint32 = (\<lambda>c. case c of [v] \<Rightarrow> Some v | _ \<Rightarrow> None)\<rparr>"

text \<open>A second instance, which differs in the trivial encryption only: as in the library,
  where a handle is built from a hash and a type tag, every value gets a handle other than
  the zero handle.\<close>

definition taggedExternals :: "(uint32 list, bool) externals" where
  "taggedExternals = plainExternals\<lparr>asEuint32 := (\<lambda>v. ucast v + 1)\<rparr>"

section \<open>Properties\<close>

subsection \<open>Auxiliary facts\<close>

lemmas eval_defs = plainExternals_def taggedExternals_def deployed_def transact_def
  submitPerformanceReview_def addBiasModel_def requestBiasAnalysis_def analyzeBias_def
  requestCalibration_def applyCalibration_def requestGroupStats_def decryptGroupStats_def
  getReviewAnalysis_def checked_add256_def checked_add32_def checked_sub32_def index_def
  decoded_def requestDecryption_def calculateGroupAverage_def abs_uint32_def Let_def

lemma bindE_simps [simp]:
  "bindE (Inl e) f = Inl e"
  "bindE (Inr x) f = f x"
  by (simp_all add: bindE_def)

lemma bindE_eq_Inr: "bindE m f = Inr y \<longleftrightarrow> (\<exists>x. m = Inr x \<and> f x = Inr y)"
  by (cases m) simp_all


text \<open>Only a request that succeeds writes the registry, and only at its own token.\<close>

lemma perform_registry:
  assumes "perform X c s = Inr s'" and "tok \<notin> set (requested c)"
  shows "requestToReviewId s' tok = requestToReviewId s tok"
  using assms
  by (cases c)
     (auto simp: submitPerformanceReview_def addBiasModel_def requestBiasAnalysis_def
        analyzeBias_def requestCalibration_def applyCalibration_def requestGroupStats_def
        decryptGroupStats_def requestDecryption_def Let_def bindE_eq_Inr
      split: if_splits option.splits)

lemma run_registry:
  "tok \<notin> set (issued X cs s) \<Longrightarrow> requestToReviewId (run X cs s) tok = requestToReviewId s tok"
proof (induction cs arbitrary: s)
  case Nil
  show ?case by simp
next
  case (Cons c cs)
  show ?case
  proof (cases "perform X c s")
    case (Inl e)
    with Cons show ?thesis by (simp add: transact_def)
  next
    case (Inr s')
    with Cons.prems have a: "tok \<notin> set (requested c)" and b: "tok \<notin> set (issued X cs s')"
      by simp_all
    from Cons.IH [OF b] perform_registry [OF Inr a] Inr show ?thesis
      by (simp add: transact_def)
  qed
qed

text \<open>What a successful bias-analysis callback has read and written.\<close>

lemma analyzeBias_InrE:
  assumes "analyzeBias X q ct pf s = Inr s'"
  obtains results ps rg eg th bias where
    "requestToReviewId s q \<noteq> 0" "checkSignatures X q ct pf"
    "decodeUint32Array X ct = Some results"
    "index results 0 = Inr ps" "index results 1 = Inr rg"
    "index results 2 = Inr eg" "index results 3 = Inr th"
    "rg = eg \<longrightarrow> bias = 0"
    "rg \<noteq> eg \<longrightarrow> \<not> ps < 75 \<and> bias = ps - 75"
    "requestToReviewId s' = requestToReviewId s"
    "reviewAnalyses s' = (reviewAnalyses s)(requestToReviewId s q :=
        (reviewAnalyses s (requestToReviewId s q))\<lparr>biasScore := bias, isBiased := (th < bias)\<rparr>)"
proof -
  from assms have reg: "requestToReviewId s q \<noteq> 0" and sig: "checkSignatures X q ct pf"
    by (auto simp: analyzeBias_def Let_def split: if_splits)
  from assms reg sig obtain results where dec: "decodeUint32Array X ct = Some results"
    by (cases "decodeUint32Array X ct") (auto simp: analyzeBias_def Let_def decoded_def)
  from assms reg sig dec obtain ps rg eg th where
    ix: "index results 0 = Inr ps" "index results 1 = Inr rg"
        "index results 2 = Inr eg" "index results 3 = Inr th"
    by (auto simp: analyzeBias_def Let_def decoded_def bindE_eq_Inr)
  show thesis
  proof (cases "rg = eg")
    case True
    with assms reg sig dec ix
    have "requestToReviewId s' = requestToReviewId s"
      "reviewAnalyses s' = (reviewAnalyses s)(requestToReviewId s q :=
        (reviewAnalyses s (requestToReviewId s q))\<lparr>biasScore := 0, isBiased := (th < 0)\<rparr>)"
      by (auto simp: analyzeBias_def Let_def decoded_def)
    with that [OF reg sig dec ix, of 0] True show thesis by simp
  next
    case False
    with assms reg sig dec ix have ge: "\<not> ps < 75"
      by (auto simp: analyzeBias_def Let_def decoded_def checked_sub32_def
          calculateGroupAverage_def split: if_splits)
    with False assms reg sig dec ix
    have "requestToReviewId s' = requestToReviewId s"
      "reviewAnalyses s' = (reviewAnalyses s)(requestToReviewId s q :=
        (reviewAnalyses s (requestToReviewId s q))
          \<lparr>biasScore := ps - 75, isBiased := (th < ps - 75)\<rparr>)"
      by (auto simp: analyzeBias_def Let_def decoded_def checked_sub32_def
          calculateGroupAverage_def abs_uint32_def split: if_splits)
    with that [OF reg sig dec ix, of "ps - 75"] False ge show thesis by simp
  qed
qed

text \<open>What a successful calibration callback has read and written.\<close>

lemma applyCalibration_InrE:
  assumes "applyCalibration X q ct pf s = Inr s'"
  obtains results a b where
    "requestToReviewId s q \<noteq> 0" "checkSignatures X q ct pf"
    "decodeUint32Array X ct = Some results"
    "index results 0 = Inr a" "index results 1 = Inr b"
    "unat a + unat b < 2 ^ 32"
    "s' = (let r = requestToReviewId s q in
           s\<lparr>performanceReviews := (performanceReviews s)(r :=
                (performanceReviews s r)\<lparr>encryptedCalibrationScore := asEuint32 X (a + b)\<rparr>),
             reviewAnalyses := (reviewAnalyses s)(r :=
                (reviewAnalyses s r)\<lparr>calibratedScore := a + b, isCalibrated := True\<rparr>),
             events := events s @ [ReviewCalibrated r]\<rparr>)"
  using assms
  by (auto simp: applyCalibration_def Let_def bindE_eq_Inr decoded_def checked_add32_def
      split: if_splits option.splits)

subsection \<open>Tokens that were never issued\<close>

text \<open>
  C5. A callback with a token that no successful request of the history has registered
  reverts with \<open>InvalidRequest\<close> (the "Invalid request" of the contract, the spec's
  UnknownRequest), in \<open>analyzeBias\<close> and in \<open>applyCalibration\<close> alike, whatever its
  payload and proof are; the transaction leaves the whole storage as it was, so no review,
  no analysis and no event log entry changes.
\<close>

theorem unknown_token_rejected:
  assumes "tok \<notin> set (issued X cs deployed)"
  shows "analyzeBias X tok ct pf (run X cs deployed) = Inl InvalidRequest
       \<and> applyCalibration X tok ct pf (run X cs deployed) = Inl InvalidRequest
       \<and> transact (analyzeBias X tok ct pf) (run X cs deployed) = run X cs deployed
       \<and> transact (applyCalibration X tok ct pf) (run X cs deployed) = run X cs deployed"
proof -
  have "requestToReviewId (run X cs deployed) tok = 0"
    using run_registry [OF assms] by (simp add: deployed_def)
  then show ?thesis
    by (simp add: analyzeBias_def applyCalibration_def transact_def)
qed

theorem unknown_token_rejected_witness:
  "8 \<notin> set (issued plainExternals
        [SubmitPerformanceReview 11 12 13 1000, RequestBiasAnalysis (Some 7) 1 1] deployed)
   \<and> analyzeBias plainExternals 8 [90, 2, 1, 10] True
        (run plainExternals [SubmitPerformanceReview 11 12 13 1000, RequestBiasAnalysis (Some 7) 1 1]
           deployed) = Inl InvalidRequest
   \<and> applyCalibration plainExternals 8 [90, 2, 1, 10] True
        (run plainExternals [SubmitPerformanceReview 11 12 13 1000, RequestBiasAnalysis (Some 7) 1 1]
           deployed) = Inl InvalidRequest"
proof -
  have h: "8 \<notin> set (issued plainExternals
        [SubmitPerformanceReview 11 12 13 1000, RequestBiasAnalysis (Some 7) 1 1] deployed)"
    by (simp add: eval_defs)
  from unknown_token_rejected [OF h, of "[90, 2, 1, 10]" True] h show ?thesis by simp
qed

subsection \<open>The frame of the bias-analysis callback\<close>

text \<open>
  C9. A bias-analysis callback that succeeds changes, in the analysis of the review it
  resolves to, the fields \<open>biasScore\<close> and \<open>isBiased\<close> only: \<open>calibratedScore\<close> and
  \<open>isCalibrated\<close> of every analysis are as before, the analyses of all other ids are as
  before, and so are all review records and the rest of the storage except the event log.
\<close>

theorem analyzeBias_frame:
  assumes "analyzeBias X q ct pf s = Inr s'"
  shows "calibratedScore (reviewAnalyses s' r) = calibratedScore (reviewAnalyses s r)
       \<and> isCalibrated (reviewAnalyses s' r) = isCalibrated (reviewAnalyses s r)
       \<and> (r \<noteq> requestToReviewId s q \<longrightarrow> reviewAnalyses s' r = reviewAnalyses s r)
       \<and> performanceReviews s' = performanceReviews s
       \<and> reviewCount s' = reviewCount s \<and> modelCount s' = modelCount s
       \<and> biasModels s' = biasModels s \<and> encryptedGroupStats s' = encryptedGroupStats s
       \<and> groupList s' = groupList s \<and> requestToReviewId s' = requestToReviewId s"
  using assms
  by (auto simp: analyzeBias_def Let_def bindE_eq_Inr split: if_splits)

theorem analyzeBias_frame_witness:
  "analyzeBias plainExternals 7 [90, 2, 1, 10] True
     (run plainExternals [SubmitPerformanceReview 11 12 13 1000, RequestBiasAnalysis (Some 7) 1 1] deployed)
   = Inr (run plainExternals [SubmitPerformanceReview 11 12 13 1000, RequestBiasAnalysis (Some 7) 1 1,
            AnalyzeBias 7 [90, 2, 1, 10] True] deployed)
   \<and> calibratedScore (reviewAnalyses (run plainExternals
        [SubmitPerformanceReview 11 12 13 1000, RequestBiasAnalysis (Some 7) 1 1,
         AnalyzeBias 7 [90, 2, 1, 10] True] deployed) 1) = 0
   \<and> performanceReviews (run plainExternals
        [SubmitPerformanceReview 11 12 13 1000, RequestBiasAnalysis (Some 7) 1 1,
         AnalyzeBias 7 [90, 2, 1, 10] True] deployed)
     = performanceReviews (run plainExternals
        [SubmitPerformanceReview 11 12 13 1000, RequestBiasAnalysis (Some 7) 1 1] deployed)"
proof -
  have h: "analyzeBias plainExternals 7 [90, 2, 1, 10] True
     (run plainExternals [SubmitPerformanceReview 11 12 13 1000, RequestBiasAnalysis (Some 7) 1 1] deployed)
   = Inr (run plainExternals [SubmitPerformanceReview 11 12 13 1000, RequestBiasAnalysis (Some 7) 1 1,
            AnalyzeBias 7 [90, 2, 1, 10] True] deployed)"
    by (simp add: eval_defs)
  have z: "calibratedScore (reviewAnalyses (run plainExternals
      [SubmitPerformanceReview 11 12 13 1000, RequestBiasAnalysis (Some 7) 1 1] deployed) 1) = 0"
    by (simp add: eval_defs)
  from analyzeBias_frame [OF h, of 1] h z show ?thesis by simp
qed

subsection \<open>Review ids and the zero sentinel\<close>










subsection \<open>Replayed callbacks\<close>

text \<open>
  C1, as the contract has it. No function of the contract deletes an entry of
  \<open>requestToReviewId\<close>: a callback that succeeds leaves the registry as it was, and a
  further delivery with the same token, payload and proof succeeds again. The second
  bias-analysis callback leaves the analyses as the first wrote them; the second calibration
  callback leaves analyses and reviews as the first wrote them and emits \<open>ReviewCalibrated\<close>
  once more.
\<close>

theorem callback_keeps_token:
  "(analyzeBias X q ct pf s = Inr s' \<longrightarrow>
      requestToReviewId s' = requestToReviewId s
      \<and> (\<exists>s''. analyzeBias X q ct pf s' = Inr s'' \<and> reviewAnalyses s'' = reviewAnalyses s'))
   \<and> (applyCalibration X q ct pf s = Inr s' \<longrightarrow>
      requestToReviewId s' = requestToReviewId s
      \<and> (\<exists>s''. applyCalibration X q ct pf s' = Inr s''
            \<and> reviewAnalyses s'' = reviewAnalyses s'
            \<and> performanceReviews s'' = performanceReviews s'
            \<and> events s'' = events s' @ [ReviewCalibrated (requestToReviewId s q)]))"
proof (intro conjI impI)
  assume a: "analyzeBias X q ct pf s = Inr s'"
  from a show "requestToReviewId s' = requestToReviewId s"
    by (rule analyzeBias_InrE) (simp add: Let_def)
  from a show "\<exists>s''. analyzeBias X q ct pf s' = Inr s'' \<and> reviewAnalyses s'' = reviewAnalyses s'"
    by (rule analyzeBias_InrE)
       (auto simp: analyzeBias_def Let_def decoded_def calculateGroupAverage_def
          checked_sub32_def abs_uint32_def)
next
  assume a: "applyCalibration X q ct pf s = Inr s'"
  from a show "requestToReviewId s' = requestToReviewId s"
    by (rule applyCalibration_InrE) (simp add: Let_def)
  from a show "\<exists>s''. applyCalibration X q ct pf s' = Inr s''
            \<and> reviewAnalyses s'' = reviewAnalyses s'
            \<and> performanceReviews s'' = performanceReviews s'
            \<and> events s'' = events s' @ [ReviewCalibrated (requestToReviewId s q)]"
    by (rule applyCalibration_InrE)
       (simp add: applyCalibration_def Let_def decoded_def checked_add32_def)
qed

theorem callback_keeps_token_witness:
  "analyzeBias plainExternals 7 [90, 2, 1, 10] True
     (run plainExternals [SubmitPerformanceReview 11 12 13 1000, RequestBiasAnalysis (Some 7) 1 1] deployed)
   = Inr (run plainExternals [SubmitPerformanceReview 11 12 13 1000, RequestBiasAnalysis (Some 7) 1 1,
            AnalyzeBias 7 [90, 2, 1, 10] True] deployed)
   \<and> applyCalibration plainExternals 8 [80, 5] True
     (run plainExternals [SubmitPerformanceReview 11 12 13 1000, RequestCalibration (Some 8) 1 21] deployed)
   = Inr (run plainExternals [SubmitPerformanceReview 11 12 13 1000, RequestCalibration (Some 8) 1 21,
            ApplyCalibration 8 [80, 5] True] deployed)
   \<and> requestToReviewId (run plainExternals
        [SubmitPerformanceReview 11 12 13 1000, RequestBiasAnalysis (Some 7) 1 1,
         AnalyzeBias 7 [90, 2, 1, 10] True] deployed) 7 = 1
   \<and> requestToReviewId (run plainExternals
        [SubmitPerformanceReview 11 12 13 1000, RequestCalibration (Some 8) 1 21,
         ApplyCalibration 8 [80, 5] True] deployed) 8 = 1"
proof -
  have h1: "analyzeBias plainExternals 7 [90, 2, 1, 10] True
     (run plainExternals [SubmitPerformanceReview 11 12 13 1000, RequestBiasAnalysis (Some 7) 1 1] deployed)
   = Inr (run plainExternals [SubmitPerformanceReview 11 12 13 1000, RequestBiasAnalysis (Some 7) 1 1,
            AnalyzeBias 7 [90, 2, 1, 10] True] deployed)"
    by (simp add: eval_defs)
  have h2: "applyCalibration plainExternals 8 [80, 5] True
     (run plainExternals [SubmitPerformanceReview 11 12 13 1000, RequestCalibration (Some 8) 1 21] deployed)
   = Inr (run plainExternals [SubmitPerformanceReview 11 12 13 1000, RequestCalibration (Some 8) 1 21,
            ApplyCalibration 8 [80, 5] True] deployed)"
    by (simp add: eval_defs)
  have r1: "requestToReviewId (run plainExternals
      [SubmitPerformanceReview 11 12 13 1000, RequestBiasAnalysis (Some 7) 1 1] deployed) 7 = 1"
    by (simp add: eval_defs)
  have r2: "requestToReviewId (run plainExternals
      [SubmitPerformanceReview 11 12 13 1000, RequestCalibration (Some 8) 1 21] deployed) 8 = 1"
    by (simp add: eval_defs)
  from callback_keeps_token [THEN conjunct1, rule_format, OF h1]
       callback_keeps_token [THEN conjunct2, rule_format, OF h2] h1 h2 r1 r2
  show ?thesis by simp
qed

text \<open>
  C1 as stated fails: after a processed callback for token 7, the entry of token 7 is still
  there, the second delivery is not rejected, and \<open>BiasDetected\<close> is emitted twice.
\<close>

theorem replayed_callback_counterexample:
  "events (run plainExternals
      [SubmitPerformanceReview 11 12 13 1000, RequestBiasAnalysis (Some 7) 1 1,
       AnalyzeBias 7 [90, 2, 1, 10] True] deployed)
     = [ReviewSubmitted 1 1000, AnalysisRequested 1, BiasDetected 1 15]
   \<and> analyzeBias plainExternals 7 [90, 2, 1, 10] True
       (run plainExternals
         [SubmitPerformanceReview 11 12 13 1000, RequestBiasAnalysis (Some 7) 1 1,
          AnalyzeBias 7 [90, 2, 1, 10] True] deployed) \<noteq> Inl InvalidRequest
   \<and> requestToReviewId (run plainExternals
         [SubmitPerformanceReview 11 12 13 1000, RequestBiasAnalysis (Some 7) 1 1,
          AnalyzeBias 7 [90, 2, 1, 10] True] deployed) 7 = 1
   \<and> events (run plainExternals
      [SubmitPerformanceReview 11 12 13 1000, RequestBiasAnalysis (Some 7) 1 1,
       AnalyzeBias 7 [90, 2, 1, 10] True, AnalyzeBias 7 [90, 2, 1, 10] True] deployed)
     = [ReviewSubmitted 1 1000, AnalysisRequested 1, BiasDetected 1 15, BiasDetected 1 15]"
  by (simp add: eval_defs)

subsection \<open>The calibration gate\<close>

text \<open>The handle that \<open>submitPerformanceReview\<close> stores is \<open>FHE.asEuint32(0)\<close>, so whether a
  review that was just created passes the gate of \<open>requestCalibration\<close> is decided by the
  library alone: the request is rejected as already calibrated exactly when the library
  reports that handle as initialized.\<close>

lemma requestCalibration_created:
  assumes "submitPerformanceReview X a b c t s = Inr s'"
  shows "requestCalibration X reply (reviewCount s') adj s' = Inl AlreadyCalibrated
       \<longleftrightarrow> isInitialized X (asEuint32 X 0)"
  using assms
  by (auto simp: submitPerformanceReview_def requestCalibration_def requestDecryption_def
      Let_def bindE_eq_Inr split: option.splits)

text \<open>Where the trivial encryption of 0 is the zero handle, the gate lets a second request
  through while the first is in flight, and the callback applies both: review 1 is
  calibrated to 85 and then to 87.\<close>

lemma calibrated_twice_in_flight:
  "events (run plainExternals
      [SubmitPerformanceReview 11 12 13 1000, RequestCalibration (Some 8) 1 21,
       RequestCalibration (Some 9) 1 22, ApplyCalibration 8 [80, 5] True,
       ApplyCalibration 9 [80, 7] True] deployed)
     = [ReviewSubmitted 1 1000, ReviewCalibrated 1, ReviewCalibrated 1]
   \<and> getReviewAnalysis (run plainExternals
      [SubmitPerformanceReview 11 12 13 1000, RequestCalibration (Some 8) 1 21,
       RequestCalibration (Some 9) 1 22, ApplyCalibration 8 [80, 5] True] deployed) 1
     = Inr (0, 85, False, True)
   \<and> getReviewAnalysis (run plainExternals
      [SubmitPerformanceReview 11 12 13 1000, RequestCalibration (Some 8) 1 21,
       RequestCalibration (Some 9) 1 22, ApplyCalibration 8 [80, 5] True,
       ApplyCalibration 9 [80, 7] True] deployed) 1
     = Inr (0, 87, False, True)"
  by (simp add: eval_defs)

text \<open>
  C2. The contract guards calibration with
  \<open>require(FHE.isInitialized(review.encryptedCalibrationScore) == false, "Already calibrated")\<close>,
  and \<open>submitPerformanceReview\<close> sets that field to \<open>FHE.asEuint32(0)\<close>. With the library's
  handles, where every trivial encryption is a handle other than zero and a handle is
  initialized when it is not zero, review 1 has just been created, its analysis reads
  \<open>(0, 0, false, false)\<close>, and \<open>requestCalibration\<close> for it reverts with
  \<open>AlreadyCalibrated\<close> before any decryption is requested: no token is registered. The
  claim asks that the request does not fail so.
\<close>

theorem created_review_rejected_as_calibrated:
  "getReviewAnalysis (run taggedExternals [SubmitPerformanceReview 11 12 13 1000] deployed) 1
     = Inr (0, 0, False, False)
   \<and> requestCalibration taggedExternals (Some 8) 1 21
       (run taggedExternals [SubmitPerformanceReview 11 12 13 1000] deployed)
     = Inl AlreadyCalibrated
   \<and> requestToReviewId (run taggedExternals
       [SubmitPerformanceReview 11 12 13 1000, RequestCalibration (Some 8) 1 21] deployed) 8 = 0"
  by (simp add: eval_defs)

subsection \<open>The bias score\<close>


text \<open>
  C3. The contract computes \<open>abs(performanceScore - calculateGroupAverage(reviewerGroup))\<close>
  on \<open>uint32\<close>, with the group average 75: the subtraction is checked, so for a score
  below the average and different groups the callback reverts with an arithmetic panic
  instead of storing the absolute difference. At the payload \<open>[70, 2, 1, 10]\<close> the claim
  asks for the bias score 5; the call reverts.
\<close>

theorem analyzeBias_below_average_reverts:
  "analyzeBias plainExternals 7 [70, 2, 1, 10] True
     (run plainExternals [SubmitPerformanceReview 11 12 13 1000, RequestBiasAnalysis (Some 7) 1 1] deployed)
   = Inl Panic_Arithmetic"
  by (simp add: eval_defs)

subsection \<open>The calibrated score\<close>

text \<open>
  C4, as the contract has it. For a registered token, a proof that verifies and a payload
  that decodes to at least two values \<open>originalScore\<close> and \<open>adjustment\<close>: when their sum
  is below \<open>2 ^ 32\<close>, the callback stores that sum as \<open>calibratedScore\<close> and sets
  \<open>isCalibrated\<close>; when it is \<open>2 ^ 32\<close> or more, the checked addition panics, the callback
  reverts and nothing is stored.
\<close>

theorem applyCalibration_checked_sum:
  assumes "requestToReviewId s q = r" and "r \<noteq> 0" and "checkSignatures X q ct pf"
    and "decodeUint32Array X ct = Some (a # b # rest)"
  shows "(unat a + unat b < 2 ^ 32 \<longrightarrow>
           (\<exists>s'. applyCalibration X q ct pf s = Inr s'
              \<and> calibratedScore (reviewAnalyses s' r) = a + b
              \<and> unat (calibratedScore (reviewAnalyses s' r)) = unat a + unat b
              \<and> isCalibrated (reviewAnalyses s' r)))
       \<and> (2 ^ 32 \<le> unat a + unat b \<longrightarrow>
           applyCalibration X q ct pf s = Inl Panic_Arithmetic
           \<and> transact (applyCalibration X q ct pf) s = s)"
  using assms
  by (auto simp: applyCalibration_def Let_def decoded_def index_def checked_add32_def
      transact_def unat_word_ariths)

theorem applyCalibration_checked_sum_witness:
  "requestToReviewId (run plainExternals
      [SubmitPerformanceReview 11 12 13 1000, RequestCalibration (Some 8) 1 21] deployed) 8 = 1
   \<and> (1 :: uint256) \<noteq> 0
   \<and> checkSignatures plainExternals 8 [80, 5] True
   \<and> decodeUint32Array plainExternals [80, 5] = Some (80 # 5 # [])
   \<and> unat (80 :: uint32) + unat (5 :: uint32) < 2 ^ 32
   \<and> applyCalibration plainExternals 8 [80, 5] True (run plainExternals
        [SubmitPerformanceReview 11 12 13 1000, RequestCalibration (Some 8) 1 21] deployed)
       \<noteq> Inl Panic_Arithmetic
   \<and> checkSignatures plainExternals 8 [4294967295, 1] True
   \<and> decodeUint32Array plainExternals [4294967295, 1] = Some (4294967295 # 1 # [])
   \<and> (2 :: nat) ^ 32 \<le> unat (4294967295 :: uint32) + unat (1 :: uint32)
   \<and> transact (applyCalibration plainExternals 8 [4294967295, 1] True) (run plainExternals
        [SubmitPerformanceReview 11 12 13 1000, RequestCalibration (Some 8) 1 21] deployed)
     = run plainExternals
        [SubmitPerformanceReview 11 12 13 1000, RequestCalibration (Some 8) 1 21] deployed"
proof -
  have h1: "requestToReviewId (run plainExternals
      [SubmitPerformanceReview 11 12 13 1000, RequestCalibration (Some 8) 1 21] deployed) 8 = 1"
    by (simp add: eval_defs)
  have h2: "(1 :: uint256) \<noteq> 0" by simp
  have h3: "checkSignatures plainExternals 8 [80, 5] True"
    and h3': "checkSignatures plainExternals 8 [4294967295, 1] True"
    by (simp_all add: plainExternals_def)
  have h4: "decodeUint32Array plainExternals [80, 5] = Some (80 # 5 # [])"
    and h4': "decodeUint32Array plainExternals [4294967295, 1] = Some (4294967295 # 1 # [])"
    by (simp_all add: plainExternals_def)
  have h5: "unat (80 :: uint32) + unat (5 :: uint32) < 2 ^ 32" by simp
  have h5': "(2 :: nat) ^ 32 \<le> unat (4294967295 :: uint32) + unat (1 :: uint32)" by simp
  from applyCalibration_checked_sum [OF h1 h2 h3 h4] h5
  have a: "applyCalibration plainExternals 8 [80, 5] True (run plainExternals
        [SubmitPerformanceReview 11 12 13 1000, RequestCalibration (Some 8) 1 21] deployed)
       \<noteq> Inl Panic_Arithmetic"
    by auto
  from applyCalibration_checked_sum [OF h1 h2 h3' h4'] h5'
  have b: "transact (applyCalibration plainExternals 8 [4294967295, 1] True) (run plainExternals
        [SubmitPerformanceReview 11 12 13 1000, RequestCalibration (Some 8) 1 21] deployed)
     = run plainExternals
        [SubmitPerformanceReview 11 12 13 1000, RequestCalibration (Some 8) 1 21] deployed"
    by blast
  from a b h1 h2 h3 h3' h4 h4' h5 h5' show ?thesis by blast
qed

text \<open>
  C4 as stated fails: at \<open>originalScore = 2 ^ 32 - 1\<close> and \<open>adjustment = 1\<close> the sum does
  not wrap to 0; the callback reverts and the review is not calibrated.
\<close>

theorem calibration_overflow_counterexample:
  "applyCalibration plainExternals 8 [4294967295, 1] True
     (run plainExternals [SubmitPerformanceReview 11 12 13 1000, RequestCalibration (Some 8) 1 21] deployed)
   = Inl Panic_Arithmetic
   \<and> \<not> isCalibrated (reviewAnalyses (run plainExternals
        [SubmitPerformanceReview 11 12 13 1000, RequestCalibration (Some 8) 1 21,
         ApplyCalibration 8 [4294967295, 1] True] deployed) 1)"
  by (simp add: eval_defs)

subsection \<open>Proofs that do not verify\<close>

text \<open>
  C6, as the contract has it. A callback with a registered token and a proof that does not
  verify reverts with \<open>InvalidProof\<close> and changes nothing, the registry included: the
  token stays registered, and a later delivery with the same token, whatever its payload
  and proof, is not rejected with \<open>InvalidRequest\<close>.
\<close>

theorem invalid_proof_keeps_token:
  assumes "requestToReviewId s q \<noteq> 0" and "\<not> checkSignatures X q ct pf"
  shows "analyzeBias X q ct pf s = Inl InvalidProof
       \<and> applyCalibration X q ct pf s = Inl InvalidProof
       \<and> transact (analyzeBias X q ct pf) s = s
       \<and> transact (applyCalibration X q ct pf) s = s
       \<and> analyzeBias X q ct' pf' (transact (analyzeBias X q ct pf) s) \<noteq> Inl InvalidRequest
       \<and> applyCalibration X q ct' pf' (transact (applyCalibration X q ct pf) s) \<noteq> Inl InvalidRequest"
proof -
  have 1: "analyzeBias X q ct pf s = Inl InvalidProof"
    and 2: "applyCalibration X q ct pf s = Inl InvalidProof"
    using assms by (simp_all add: analyzeBias_def applyCalibration_def)
  have 3: "analyzeBias X q ct' pf' s \<noteq> Inl InvalidRequest"
    using assms(1)
    by (auto simp: analyzeBias_def Let_def bindE_def
        decoded_def index_def checked_sub32_def split: sum.splits option.splits if_splits)
  have 4: "applyCalibration X q ct' pf' s \<noteq> Inl InvalidRequest"
    using assms(1)
    by (auto simp: applyCalibration_def Let_def bindE_def
        decoded_def index_def checked_add32_def split: sum.splits option.splits if_splits)
  show ?thesis using 1 2 3 4 by (simp add: transact_def)
qed

theorem invalid_proof_keeps_token_witness:
  "requestToReviewId (run plainExternals
      [SubmitPerformanceReview 11 12 13 1000, RequestBiasAnalysis (Some 7) 1 1] deployed) 7 \<noteq> 0
   \<and> \<not> checkSignatures plainExternals 7 [90, 2, 1, 10] False
   \<and> analyzeBias plainExternals 7 [90, 2, 1, 10] False (run plainExternals
      [SubmitPerformanceReview 11 12 13 1000, RequestBiasAnalysis (Some 7) 1 1] deployed) = Inl InvalidProof
   \<and> analyzeBias plainExternals 7 [90, 2, 1, 10] True
       (transact (analyzeBias plainExternals 7 [90, 2, 1, 10] False) (run plainExternals
          [SubmitPerformanceReview 11 12 13 1000, RequestBiasAnalysis (Some 7) 1 1] deployed))
       \<noteq> Inl InvalidRequest"
proof -
  have h1: "requestToReviewId (run plainExternals
      [SubmitPerformanceReview 11 12 13 1000, RequestBiasAnalysis (Some 7) 1 1] deployed) 7 \<noteq> 0"
    by (simp add: eval_defs)
  have h2: "\<not> checkSignatures plainExternals 7 [90, 2, 1, 10] False"
    by (simp add: plainExternals_def)
  from invalid_proof_keeps_token [OF h1 h2, of "[90, 2, 1, 10]" True] h1 h2
  show ?thesis by blast
qed

text \<open>
  C6 as stated fails: after a delivery of token 7 with a bad proof, the delivery of
  token 7 with a good proof is processed and emits \<open>BiasDetected\<close>.
\<close>

theorem invalid_proof_counterexample:
  "analyzeBias plainExternals 7 [90, 2, 1, 10] False
     (run plainExternals [SubmitPerformanceReview 11 12 13 1000, RequestBiasAnalysis (Some 7) 1 1] deployed)
   = Inl InvalidProof
   \<and> analyzeBias plainExternals 7 [90, 2, 1, 10] True
     (run plainExternals [SubmitPerformanceReview 11 12 13 1000, RequestBiasAnalysis (Some 7) 1 1,
        AnalyzeBias 7 [90, 2, 1, 10] False] deployed) \<noteq> Inl InvalidRequest
   \<and> events (run plainExternals
      [SubmitPerformanceReview 11 12 13 1000, RequestBiasAnalysis (Some 7) 1 1,
       AnalyzeBias 7 [90, 2, 1, 10] False, AnalyzeBias 7 [90, 2, 1, 10] True] deployed)
     = [ReviewSubmitted 1 1000, AnalysisRequested 1, BiasDetected 1 15]"
  by (simp add: eval_defs)

subsection \<open>The registry stores no operation kind\<close>

text \<open>
  C7, as the contract has it. The registry is one map from tokens to ids:
  \<open>requestBiasAnalysis\<close>, \<open>requestCalibration\<close> and \<open>requestGroupStats\<close> all store the
  subject id under the token and nothing else. A token registered by any of the three for
  a non-zero id \<open>r\<close> is resolved by both callbacks as the review id \<open>r\<close>:
  \<open>applyCalibration\<close> calibrates review \<open>r\<close> and \<open>analyzeBias\<close> writes the bias score
  of review \<open>r\<close>, whichever request registered the token.
\<close>

theorem registry_has_no_kind:
  assumes "requestBiasAnalysis (Some q) r m s = Inr s'
         \<or> requestCalibration X (Some q) r adj s = Inr s'
         \<or> requestGroupStats X (Some q) r s = Inr s'"
    and "r \<noteq> 0" and "checkSignatures X q ct pf"
  shows "requestToReviewId s' = (requestToReviewId s)(q := r)
       \<and> (decodeUint32Array X ct = Some (a # b # rest) \<and> unat a + unat b < 2 ^ 32 \<longrightarrow>
            (\<exists>s''. applyCalibration X q ct pf s' = Inr s''
               \<and> isCalibrated (reviewAnalyses s'' r)
               \<and> calibratedScore (reviewAnalyses s'' r) = a + b))
       \<and> (decodeUint32Array X ct = Some (ps # rg # eg # th # rest') \<and> (rg = eg \<or> 75 \<le> ps) \<longrightarrow>
            (\<exists>s''. analyzeBias X q ct pf s' = Inr s''
               \<and> biasScore (reviewAnalyses s'' r) = (if rg = eg then 0 else ps - 75)))"
proof -
  from assms(1) have reg: "requestToReviewId s' = (requestToReviewId s)(q := r)"
    by (auto simp: requestBiasAnalysis_def requestCalibration_def requestGroupStats_def
        requestDecryption_def Let_def split: if_splits)
  then have q: "requestToReviewId s' q = r" by simp
  have cal: "decodeUint32Array X ct = Some (a # b # rest) \<and> unat a + unat b < 2 ^ 32 \<longrightarrow>
            (\<exists>s''. applyCalibration X q ct pf s' = Inr s''
               \<and> isCalibrated (reviewAnalyses s'' r)
               \<and> calibratedScore (reviewAnalyses s'' r) = a + b)"
    using q assms(2,3)
    by (auto simp: applyCalibration_def Let_def decoded_def index_def checked_add32_def)
  have bias: "decodeUint32Array X ct = Some (ps # rg # eg # th # rest') \<and> (rg = eg \<or> 75 \<le> ps) \<longrightarrow>
            (\<exists>s''. analyzeBias X q ct pf s' = Inr s''
               \<and> biasScore (reviewAnalyses s'' r) = (if rg = eg then 0 else ps - 75))"
    using q assms(2,3)
    by (auto simp: analyzeBias_def Let_def decoded_def index_def checked_sub32_def
        calculateGroupAverage_def abs_uint32_def not_less)
  from reg cal bias show ?thesis by blast
qed

theorem registry_has_no_kind_witness:
  "requestBiasAnalysis (Some 7) 1 1 (run plainExternals [SubmitPerformanceReview 11 12 13 1000] deployed)
     = Inr (run plainExternals
         [SubmitPerformanceReview 11 12 13 1000, RequestBiasAnalysis (Some 7) 1 1] deployed)
   \<and> (1 :: uint256) \<noteq> 0
   \<and> checkSignatures plainExternals 7 [90, 2, 1, 10] True
   \<and> decodeUint32Array plainExternals [90, 2, 1, 10] = Some (90 # 2 # [1, 10])
   \<and> unat (90 :: uint32) + unat (2 :: uint32) < 2 ^ 32
   \<and> (75 :: uint32) \<le> 90
   \<and> applyCalibration plainExternals 7 [90, 2, 1, 10] True (run plainExternals
         [SubmitPerformanceReview 11 12 13 1000, RequestBiasAnalysis (Some 7) 1 1] deployed)
       \<noteq> Inl InvalidRequest
   \<and> requestToReviewId (run plainExternals
         [SubmitPerformanceReview 11 12 13 1000, RequestBiasAnalysis (Some 7) 1 1] deployed) 7 = 1"
proof -
  have h1: "requestBiasAnalysis (Some 7) 1 1
       (run plainExternals [SubmitPerformanceReview 11 12 13 1000] deployed)
     = Inr (run plainExternals
         [SubmitPerformanceReview 11 12 13 1000, RequestBiasAnalysis (Some 7) 1 1] deployed)"
    by (simp add: eval_defs)
  have h2: "(1 :: uint256) \<noteq> 0" by simp
  have h3: "checkSignatures plainExternals 7 [90, 2, 1, 10] True"
    by (simp add: plainExternals_def)
  have h4: "decodeUint32Array plainExternals [90, 2, 1, 10] = Some (90 # 2 # [1, 10])"
    by (simp add: plainExternals_def)
  have h5: "unat (90 :: uint32) + unat (2 :: uint32) < 2 ^ 32" by simp
  have h6: "(75 :: uint32) \<le> 90" by simp
  note t = registry_has_no_kind [OF disjI1 [OF h1] h2 h3, of 90 2 "[1, 10]" 90 2 1 10 "[]"]
  from t h4 h5 have c1: "applyCalibration plainExternals 7 [90, 2, 1, 10] True
      (run plainExternals
         [SubmitPerformanceReview 11 12 13 1000, RequestBiasAnalysis (Some 7) 1 1] deployed)
       \<noteq> Inl InvalidRequest"
    by auto
  from t have c2: "requestToReviewId (run plainExternals
         [SubmitPerformanceReview 11 12 13 1000, RequestBiasAnalysis (Some 7) 1 1] deployed) 7 = 1"
    by simp
  from h1 h2 h3 h4 h5 h6 c1 c2 show ?thesis by blast
qed

text \<open>
  C7 as stated fails: token 7 is registered by a bias-analysis request, and the calibration
  callback resolves it and calibrates review 1 to 90 + 2.
\<close>

theorem kind_confusion_counterexample:
  "events (run plainExternals
      [SubmitPerformanceReview 11 12 13 1000, RequestBiasAnalysis (Some 7) 1 1,
       ApplyCalibration 7 [90, 2, 1, 10] True] deployed)
     = [ReviewSubmitted 1 1000, AnalysisRequested 1, ReviewCalibrated 1]
   \<and> getReviewAnalysis (run plainExternals
      [SubmitPerformanceReview 11 12 13 1000, RequestBiasAnalysis (Some 7) 1 1,
       ApplyCalibration 7 [90, 2, 1, 10] True] deployed) 1 = Inr (0, 92, False, True)"
  by (simp add: eval_defs)

subsection \<open>Reading an analysis\<close>






end
